theory Spec2Isabelle
  imports Complex_Main
begin

section \<open>Python values, exceptions and the collaborators of the code\<close>

text \<open>
  The exceptions that the three modules raise or catch. Each carries what \<open>str(e)\<close>
  prints, except \<open>SOAPError\<close>, which carries its two arguments \<open>(code, err)\<close> as
  \<open>upnpclient.soap\<close> builds it. \<open>Timeout\<close> is the subclass \<open>requests.Timeout\<close> of
  \<open>requests.RequestException\<close>; \<open>VibinError\<close> is the one error class the repository
  raises itself.
\<close>

datatype exn =
    VibinError string
  | KeyError string
  | IndexError string
  | TypeError string
  | JSONDecodeError string
  | RequestException string
  | Timeout string
  | SOAPError int string

fun is_Timeout :: "exn \<Rightarrow> bool" where
  "is_Timeout (Timeout _) = True"
| "is_Timeout _ = False"

fun is_RequestException :: "exn \<Rightarrow> bool" where
  "is_RequestException (RequestException _) = True"
| "is_RequestException (Timeout _) = True"
| "is_RequestException _ = False"

fun is_KeyError :: "exn \<Rightarrow> bool" where
  "is_KeyError (KeyError _) = True"
| "is_KeyError _ = False"

fun is_IndexError :: "exn \<Rightarrow> bool" where
  "is_IndexError (IndexError _) = True"
| "is_IndexError _ = False"

fun is_JSONDecodeError :: "exn \<Rightarrow> bool" where
  "is_JSONDecodeError (JSONDecodeError _) = True"
| "is_JSONDecodeError _ = False"

text \<open>\<open>str(e)\<close> of a caught exception (used in one message of the media-server resolver).\<close>

fun str_exn :: "exn \<Rightarrow> string" where
  "str_exn (VibinError m) = m"
| "str_exn (KeyError m) = m"
| "str_exn (IndexError m) = m"
| "str_exn (TypeError m) = m"
| "str_exn (JSONDecodeError m) = m"
| "str_exn (RequestException m) = m"
| "str_exn (Timeout m) = m"
| "str_exn (SOAPError c m) = m"

text \<open>Sequencing of computations that may raise: the first exception wins.\<close>

definition bind_exn :: "exn + 'a \<Rightarrow> ('a \<Rightarrow> exn + 'b) \<Rightarrow> exn + 'b" where
  "bind_exn r f = (case r of Inl e \<Rightarrow> Inl e | Inr v \<Rightarrow> f v)"

text \<open>
  A parsed JSON value, as \<open>json.loads\<close> and \<open>response.json()\<close> return it. A Python
  dict is the association list of its items (looked up with \<open>map_of\<close>). Numbers are
  rationals: Python's floats are idealised as the exact values they round.
\<close>

datatype json =
    JNull
  | JBool bool
  | JNum rat
  | JStr string
  | JArr "json list"
  | JObj "(string \<times> json) list"

text \<open>\<open>v[key]\<close> for a string key: only a dict can be subscripted by a string.\<close>

definition subscript :: "json \<Rightarrow> string \<Rightarrow> exn + json" where
  "subscript v k =
     (case v of
        JObj kvs \<Rightarrow>
          (case map_of kvs k of
             None \<Rightarrow> Inl (KeyError ([CHR 0x27] @ k @ [CHR 0x27]))
           | Some x \<Rightarrow> Inr x)
      | _ \<Rightarrow> Inl (TypeError ''not subscriptable by str''))"

text \<open>\<open>for x in v\<close>: a list gives its elements, a dict its keys, a string its characters.\<close>

definition iterate :: "json \<Rightarrow> exn + json list" where
  "iterate v =
     (case v of
        JArr xs \<Rightarrow> Inr xs
      | JObj kvs \<Rightarrow> Inr (map (\<lambda>kv. JStr (fst kv)) kvs)
      | JStr s \<Rightarrow> Inr (map (\<lambda>c. JStr [c]) s)
      | _ \<Rightarrow> Inl (TypeError ''object is not iterable''))"

text \<open>Python's truth value of a JSON value (\<open>if v\<close>, \<open>x if v else y\<close>).\<close>

definition truthy :: "json \<Rightarrow> bool" where
  "truthy v =
     (case v of
        JNull \<Rightarrow> False
      | JBool b \<Rightarrow> b
      | JNum r \<Rightarrow> r \<noteq> 0
      | JStr s \<Rightarrow> s \<noteq> []
      | JArr xs \<Rightarrow> xs \<noteq> []
      | JObj kvs \<Rightarrow> kvs \<noteq> [])"

text \<open>\<open>xs[0]\<close>.\<close>

definition index0 :: "'a list \<Rightarrow> exn + 'a" where
  "index0 xs = (case xs of [] \<Rightarrow> Inl (IndexError ''list index out of range'') | x # _ \<Rightarrow> Inr x)"

text \<open>A list comprehension \<open>[x for x in xs if p(x)]\<close> whose condition may raise.\<close>

fun filter_exn :: "('a \<Rightarrow> exn + bool) \<Rightarrow> 'a list \<Rightarrow> exn + 'a list" where
  "filter_exn p [] = Inr []"
| "filter_exn p (x # xs) =
     bind_exn (p x) (\<lambda>b. bind_exn (filter_exn p xs) (\<lambda>ys. Inr (if b then x # ys else ys)))"

text \<open>\<open>sub in s\<close> on strings.\<close>

fun starts_with :: "string \<Rightarrow> string \<Rightarrow> bool" where
  "starts_with [] s = True"
| "starts_with (c # cs) [] = False"
| "starts_with (c # cs) (d # ds) = (c = d \<and> starts_with cs ds)"

fun str_contains :: "string \<Rightarrow> string \<Rightarrow> bool" where
  "str_contains sub [] = (sub = [])"
| "str_contains sub (c # cs) = (starts_with sub (c # cs) \<or> str_contains sub cs)"

text \<open>\<open>str(n)\<close> of an integer.\<close>

fun str_nat :: "nat \<Rightarrow> string" where
  "str_nat n =
     (if n < 10 then [''0123456789'' ! n]
      else str_nat (n div 10) @ [''0123456789'' ! (n mod 10)])"

declare str_nat.simps [simp del]

definition str_int :: "int \<Rightarrow> string" where
  "str_int i = (if i < 0 then CHR ''-'' # str_nat (nat (- i)) else str_nat (nat i))"

text \<open>
  A \<open>upnpclient.Device\<close>, with the attributes the code reads. The amplifier resolver
  compares two devices with \<open>!=\<close>; the model compares the records with HOL's
  equality. \<open>oid\<close> stands for the identity of the Python object, so that the model
  covers a class that compares by identity: two records of one object agree on every
  field.
\<close>

record device =
  oid :: nat
  manufacturer :: string
  device_type :: string
  friendly_name :: string
  model_name :: string
  location :: string
  udn :: string

text \<open>
  Two objects describe one device when they carry the same UDN, the stable unique
  identifier of a UPnP device (\<open>device_udn\<close> in the adapters). The code never makes this
  comparison; it is what "the streamer's device" means in the statements about the
  amplifier resolver.
\<close>

definition same_device :: "device \<Rightarrow> device \<Rightarrow> bool" where
  "same_device a b = (udn a = udn b)"

text \<open>An HTTP response: its status and what \<open>response.json()\<close> gives.\<close>

record response =
  status_code :: int
  json_body :: "exn + json"

text \<open>
  The collaborators outside the repository, as parameters: \<open>urlparse(s).hostname\<close>,
  the constructor \<open>upnpclient.Device(x)\<close> (which fetches the description at \<open>x\<close>),
  \<open>requests.get(url)\<close>, and \<open>str\<close> of a JSON value that is not a string.
\<close>

record env =
  urlparse_hostname :: "string \<Rightarrow> exn + string option"
  upnp_Device :: "json \<Rightarrow> exn + device"
  requests_get :: "string \<Rightarrow> exn + response"
  py_repr :: "json \<Rightarrow> string"

definition format_value :: "env \<Rightarrow> json \<Rightarrow> string" where
  "format_value E v = (case v of JStr s \<Rightarrow> s | _ \<Rightarrow> py_repr E v)"

definition format_hostname :: "string option \<Rightarrow> string" where
  "format_hostname h = (case h of None \<Rightarrow> ''None'' | Some s \<Rightarrow> s)"

section \<open>Device resolution (\<open>device_resolution.py\<close>)\<close>

text \<open>
  Every resolver reads the discovery snapshot through \<open>_discover_upnp_devices\<close>, which
  returns the cached list; the snapshot is the parameter \<open>devices\<close> (the timeout only
  matters to the scan that fills the cache). Log lines are not modelled.
\<close>

subsection \<open>\<open>_determine_amplifier_device\<close>\<close>

definition media_renderers :: "device list \<Rightarrow> device list" where
  "media_renderers devices = filter (\<lambda>d. str_contains ''MediaRenderer'' (device_type d)) devices"

definition amplifier_auto_discover :: "device list \<Rightarrow> device \<Rightarrow> exn + device option" where
  "amplifier_auto_discover devices streamer_device =
     (case (if length (media_renderers devices) = 1 then index0 (media_renderers devices)
            else index0 (filter (\<lambda>d. d \<noteq> streamer_device) (media_renderers devices))) of
        Inl e \<Rightarrow> (if is_IndexError e then Inr None else Inl e)
      | Inr d \<Rightarrow> Inr (Some d))"

definition amplifier_by_hint :: "env \<Rightarrow> device list \<Rightarrow> string \<Rightarrow> exn + device option" where
  "amplifier_by_hint E devices amplifier_input =
     (case urlparse_hostname E amplifier_input of
        Inl e \<Rightarrow> Inl e
      | Inr (Some h) \<Rightarrow>
          (case upnp_Device E (JStr amplifier_input) of
             Inl e \<Rightarrow>
               (if is_RequestException e
                then Inl (VibinError (''Could not find a UPnP device at the provided amplifier URL: ''
                                      @ amplifier_input))
                else Inl e)
           | Inr d \<Rightarrow> Inr (Some d))
      | Inr None \<Rightarrow>
          (case index0 (filter (\<lambda>d. friendly_name d = amplifier_input) devices) of
             Inl e \<Rightarrow>
               (if is_IndexError e
                then Inl (VibinError (''Could not find a UPnP device with friendly name ''
                                      @ [CHR 0x27] @ amplifier_input @ [CHR 0x27]))
                else Inl e)
           | Inr d \<Rightarrow> Inr (Some d)))"

definition determine_amplifier_device ::
  "env \<Rightarrow> device list \<Rightarrow> string option \<Rightarrow> device \<Rightarrow> exn + device option" where
  "determine_amplifier_device E devices amplifier_input streamer_device =
     (case amplifier_input of
        None \<Rightarrow> amplifier_auto_discover devices streamer_device
      | Some s \<Rightarrow>
          (if s = [] then amplifier_auto_discover devices streamer_device
           else amplifier_by_hint E devices s))"

subsection \<open>\<open>_determine_streamer_device\<close>\<close>

text \<open>No hint: the first Cambridge Audio MediaRenderer of the snapshot (lines 64-83).\<close>

definition streamer_auto_discover :: "device list \<Rightarrow> exn + device option" where
  "streamer_auto_discover devices =
     (case index0 (filter (\<lambda>d. manufacturer d = ''Cambridge Audio''
                              \<and> str_contains ''MediaRenderer'' (device_type d)) devices) of
        Inl e \<Rightarrow>
          (if is_IndexError e
           then Inl (VibinError ''Could not find a Cambridge Audio MediaRenderer UPnP device'')
           else Inl e)
      | Inr d \<Rightarrow> Inr (Some d))"

text \<open>The hint is a URL (lines 87-99).\<close>

definition streamer_by_url :: "env \<Rightarrow> string \<Rightarrow> exn + device option" where
  "streamer_by_url E streamer_input =
     (case upnp_Device E (JStr streamer_input) of
        Inl e \<Rightarrow>
          (if is_RequestException e
           then Inl (VibinError (''Could not find a UPnP device at the provided streamer URL: ''
                                 @ streamer_input))
           else Inl e)
      | Inr d \<Rightarrow> Inr (Some d))"

text \<open>The friendly-name step (lines 160-171).\<close>

definition streamer_by_friendly_name :: "device list \<Rightarrow> string \<Rightarrow> exn + device option" where
  "streamer_by_friendly_name devices streamer_input =
     (case index0 (filter (\<lambda>d. friendly_name d = streamer_input) devices) of
        Inl e \<Rightarrow>
          (if is_IndexError e
           then Inl (VibinError (''Could not find a UPnP device with friendly name ''
                                 @ [CHR 0x27] @ streamer_input @ [CHR 0x27]))
           else Inl e)
      | Inr d \<Rightarrow> Inr (Some d))"

text \<open>The innermost \<open>try\<close> (lines 121-133): fetch the entry's description.\<close>

definition streamer_from_probe_entry :: "env \<Rightarrow> string \<Rightarrow> json \<Rightarrow> exn + device option" where
  "streamer_from_probe_entry E streamer_input streamer =
     (case bind_exn (subscript streamer ''description_url'') (upnp_Device E) of
        Inl e \<Rightarrow>
          (if is_KeyError e
           then Inl (VibinError (''Cambridge Audio device found at '' @ streamer_input
                                 @ '', but it did not have a description_url''))
           else if is_RequestException e
           then bind_exn (subscript streamer ''description_url'')
                  (\<lambda>u. Inl (VibinError (''Cambridge Audio device found at '' @ streamer_input
                                        @ '', but its description_url was unsuccessful: ''
                                        @ format_value E u)))
           else Inl e)
      | Inr d \<Rightarrow> Inr (Some d))"

text \<open>
  The list comprehension of lines 115-119: the entries of \<open>response.json()["data"]["devices"]\<close>
  whose manufacturer is Cambridge Audio.
\<close>

definition made_by_cambridge :: "json \<Rightarrow> exn + bool" where
  "made_by_cambridge device =
     bind_exn (subscript device ''manufacturer'') (\<lambda>m. Inr (m = JStr ''Cambridge Audio''))"

definition cambridge_entries :: "response \<Rightarrow> exn + json list" where
  "cambridge_entries resp =
     bind_exn (json_body resp) (\<lambda>j.
     bind_exn (subscript j ''data'') (\<lambda>data.
     bind_exn (subscript data ''devices'') (\<lambda>devs.
     bind_exn (iterate devs) (\<lambda>items.
     filter_exn made_by_cambridge items))))"

text \<open>The \<open>try\<close> around the parsing of a 200 response (lines 114-151).\<close>

definition streamer_from_probe_response :: "env \<Rightarrow> string \<Rightarrow> response \<Rightarrow> exn + device option" where
  "streamer_from_probe_response E streamer_input resp =
     (case bind_exn (cambridge_entries resp) (\<lambda>cands.
           bind_exn (index0 cands) (\<lambda>streamer.
           streamer_from_probe_entry E streamer_input streamer)) of
        Inl e \<Rightarrow>
          (if is_JSONDecodeError e
           then Inl (VibinError (''A host was found at '' @ streamer_input
                                 @ '', but it does not appear to be a Cambridge Audio device.''))
           else if is_KeyError e
           then Inl (VibinError (''A host was found at '' @ streamer_input
                                 @ '', but it does not appear to be a Cambridge Audio device.''))
           else if is_IndexError e
           then Inl (VibinError (''Cambridge Audio device found at '' @ streamer_input
                                 @ '', but it did oddly not specify any devices manufactured by ''
                                 @ ''Cambridge Audio''))
           else Inl e)
      | Inr r \<Rightarrow> Inr r)"

text \<open>
  The hint is not a URL (lines 100-171): probe the host, and go to the friendly-name step
  when the probe raises a \<open>RequestException\<close> that is not a \<open>Timeout\<close>. A response
  whose status is not 200 leaves the \<open>try\<close> without a \<open>return\<close>: the function
  returns \<open>None\<close>.
\<close>

definition probe_url :: "string \<Rightarrow> string" where
  "probe_url host = ''http://'' @ host @ '':80/smoip/system/upnp''"

definition streamer_by_hostname_or_name :: "env \<Rightarrow> device list \<Rightarrow> string \<Rightarrow> exn + device option" where
  "streamer_by_hostname_or_name E devices streamer_input =
     (case bind_exn (requests_get E (probe_url streamer_input)) (\<lambda>resp.
             if status_code resp = 200
             then streamer_from_probe_response E streamer_input resp
             else Inr None) of
        Inl e \<Rightarrow>
          (if is_Timeout e
           then Inl (VibinError (''Timed out attempting to connect to '' @ streamer_input))
           else if is_RequestException e
           then streamer_by_friendly_name devices streamer_input
           else Inl e)
      | Inr r \<Rightarrow> Inr r)"

definition determine_streamer_device :: "env \<Rightarrow> device list \<Rightarrow> string option \<Rightarrow> exn + device option" where
  "determine_streamer_device E devices streamer_input =
     (case streamer_input of
        None \<Rightarrow> streamer_auto_discover devices
      | Some s \<Rightarrow>
          (if s = [] then streamer_auto_discover devices
           else (case urlparse_hostname E s of
                   Inl e \<Rightarrow> Inl e
                 | Inr (Some h) \<Rightarrow> streamer_by_url E s
                 | Inr None \<Rightarrow> streamer_by_hostname_or_name E devices s)))"

subsection \<open>\<open>_determine_media_server_device\<close>\<close>

text \<open>No hint, Cambridge Audio streamer: ask the streamer (lines 198-236).\<close>

definition media_server_from_streamer :: "env \<Rightarrow> device \<Rightarrow> exn + device option" where
  "media_server_from_streamer E streamer_device =
     (case bind_exn (urlparse_hostname E (location streamer_device)) (\<lambda>h.
           bind_exn (requests_get E (probe_url (format_hostname h))) (\<lambda>resp.
             (case bind_exn (json_body resp) (\<lambda>j.
                   bind_exn (subscript j ''data'') (\<lambda>data.
                   bind_exn (subscript data ''devices'') (\<lambda>devs.
                   bind_exn (iterate devs) (\<lambda>items.
                   bind_exn (filter_exn (\<lambda>cambridge_device.
                               bind_exn (subscript cambridge_device ''description_url'') (\<lambda>u.
                               bind_exn (upnp_Device E u) (\<lambda>d.
                               Inr (str_contains ''MediaServer'' (device_type d))))) items) (\<lambda>cands.
                   bind_exn (index0 cands) (\<lambda>media_server.
                   bind_exn (subscript media_server ''description_url'') (\<lambda>u.
                   bind_exn (upnp_Device E u) (\<lambda>d. Inr (Some d))))))))) of
                Inl e \<Rightarrow> (if is_IndexError e then Inr None else Inl e)
              | Inr r \<Rightarrow> Inr r))) of
        Inl e \<Rightarrow>
          (if is_RequestException e \<or> is_JSONDecodeError e \<or> is_KeyError e \<or> is_IndexError e
           then Inl (VibinError (''Could not determine media server from Cambridge Audio device: ''
                                 @ str_exn e))
           else Inl e)
      | Inr r \<Rightarrow> Inr r)"

text \<open>No hint, another streamer: the first MediaServer of the snapshot (lines 237-248).\<close>

definition media_server_auto_discover :: "device list \<Rightarrow> exn + device option" where
  "media_server_auto_discover devices =
     (case index0 (filter (\<lambda>d. str_contains ''MediaServer'' (device_type d)) devices) of
        Inl e \<Rightarrow> (if is_IndexError e then Inr None else Inl e)
      | Inr d \<Rightarrow> Inr (Some d))"

definition media_server_no_hint :: "env \<Rightarrow> device list \<Rightarrow> device \<Rightarrow> exn + device option" where
  "media_server_no_hint E devices streamer_device =
     (if manufacturer streamer_device = ''Cambridge Audio''
      then media_server_from_streamer E streamer_device
      else media_server_auto_discover devices)"

text \<open>A hint: a URL, or else a friendly name (lines 250-280).\<close>

definition media_server_by_hint :: "env \<Rightarrow> device list \<Rightarrow> string \<Rightarrow> exn + device option" where
  "media_server_by_hint E devices media_server_input =
     (case urlparse_hostname E media_server_input of
        Inl e \<Rightarrow> Inl e
      | Inr (Some h) \<Rightarrow>
          (case upnp_Device E (JStr media_server_input) of
             Inl e \<Rightarrow>
               (if is_RequestException e
                then Inl (VibinError (''Could not find a UPnP device at the provided media server URL: ''
                                      @ media_server_input))
                else Inl e)
           | Inr d \<Rightarrow> Inr (Some d))
      | Inr None \<Rightarrow>
          (case index0 (filter (\<lambda>d. friendly_name d = media_server_input) devices) of
             Inl e \<Rightarrow>
               (if is_IndexError e
                then Inl (VibinError (''Could not find a UPnP device with friendly name ''
                                      @ [CHR 0x27] @ media_server_input @ [CHR 0x27]))
                else Inl e)
           | Inr d \<Rightarrow> Inr (Some d)))"

definition determine_media_server_device ::
  "env \<Rightarrow> device list \<Rightarrow> string option \<Rightarrow> device \<Rightarrow> exn + device option" where
  "determine_media_server_device E devices media_server_input streamer_device =
     (case media_server_input of
        None \<Rightarrow> media_server_no_hint E devices streamer_device
      | Some s \<Rightarrow>
          (if s = [] then media_server_no_hint E devices streamer_device
           else media_server_by_hint E devices s))"

subsection \<open>Adapter classes: \<open>determine_streamer_class\<close> and its siblings\<close>

text \<open>
  An implementation class found by \<open>inspect.getmembers\<close>: its \<open>__name__\<close> and its
  \<open>model_name\<close>. The list \<open>known\<close> is what the reflection loop collects, in its
  order; \<open>model_to_streamer\<close> (and its siblings) is the override table of the package.
\<close>

record adapter_class =
  class_name :: string
  class_model_name :: string

definition known_by_model ::
  "adapter_class list \<Rightarrow> (string \<rightharpoonup> adapter_class) \<Rightarrow> (string \<rightharpoonup> adapter_class)" where
  "known_by_model known overrides =
     (foldl (\<lambda>m c. m(class_model_name c \<mapsto> c)) Map.empty known) ++ overrides"

definition determine_streamer_class ::
  "adapter_class list \<Rightarrow> (string \<rightharpoonup> adapter_class) \<Rightarrow> device \<Rightarrow> string option
     \<Rightarrow> exn + adapter_class" where
  "determine_streamer_class known_streamers model_to_streamer streamer_device streamer_type =
     (case streamer_type of
        None \<Rightarrow>
          (case known_by_model known_streamers model_to_streamer (model_name streamer_device) of
             None \<Rightarrow> Inl (VibinError (''Could not find Vibin implementation for streamer model ''
                                      @ [CHR 0x27] @ model_name streamer_device @ [CHR 0x27]))
           | Some c \<Rightarrow> Inr c)
      | Some t \<Rightarrow>
          (case find (\<lambda>streamer. class_name streamer = t) known_streamers of
             None \<Rightarrow> Inl (VibinError (''Could not find Vibin implementation for requested ''
                                      @ ''streamer type: '' @ t))
           | Some c \<Rightarrow> Inr c))"

definition determine_media_server_class ::
  "adapter_class list \<Rightarrow> (string \<rightharpoonup> adapter_class) \<Rightarrow> device \<Rightarrow> string option
     \<Rightarrow> exn + adapter_class" where
  "determine_media_server_class known_media_servers model_to_media_server media_server_device
       media_server_type =
     (case media_server_type of
        None \<Rightarrow>
          (case known_by_model known_media_servers model_to_media_server
                  (model_name media_server_device) of
             None \<Rightarrow> Inl (VibinError (''Could not find Vibin implementation for media server model ''
                                      @ [CHR 0x27] @ model_name media_server_device @ [CHR 0x27]))
           | Some c \<Rightarrow> Inr c)
      | Some t \<Rightarrow>
          (case find (\<lambda>media_server. class_name media_server = t) known_media_servers of
             None \<Rightarrow> Inl (VibinError (''Could not find Vibin implementation for requested ''
                                      @ ''media server type: '' @ t))
           | Some c \<Rightarrow> Inr c))"

definition determine_amplifier_class ::
  "adapter_class list \<Rightarrow> (string \<rightharpoonup> adapter_class) \<Rightarrow> device \<Rightarrow> string option
     \<Rightarrow> exn + adapter_class" where
  "determine_amplifier_class known_amplifiers model_to_amplifier amplifier_device amplifier_type =
     (case amplifier_type of
        None \<Rightarrow>
          (case known_by_model known_amplifiers model_to_amplifier (model_name amplifier_device) of
             None \<Rightarrow> Inl (VibinError (''Could not find Vibin implementation for amplifier model ''
                                      @ [CHR 0x27] @ model_name amplifier_device @ [CHR 0x27]))
           | Some c \<Rightarrow> Inr c)
      | Some t \<Rightarrow>
          (case find (\<lambda>amplifier. class_name amplifier = t) known_amplifiers of
             None \<Rightarrow> Inl (VibinError (''Could not find Vibin implementation for requested ''
                                      @ ''amplifier type: '' @ t))
           | Some c \<Rightarrow> Inr c))"

section \<open>The StreamMagic amplifier adapter (\<open>amplifiers/streammagic.py\<close>)\<close>

text \<open>
  \<open>AmplifierState\<close> of \<open>vibin.models\<close>, with the fields the adapter sets. Actions, power
  and mute states are the string literals of \<open>vibin.types\<close>; \<open>sources\<close> is always
  \<open>None\<close> here.
\<close>

record AmplifierState =
  name :: string
  actions :: "string list"
  power_state :: "string option"
  mute :: "string option"
  volume :: "rat option"
  sources :: "string list option"

text \<open>
  The adapter object: its device, whether an \<open>on_update\<close> callback was given, the host of
  the device's location, and the canonical state. Two traces record what the adapter does
  to the outside: the calls of the update callback and the URLs of its outbound GETs.
\<close>

record StreamMagic =
  adapter_device :: device
  has_on_update :: bool
  device_hostname :: "string option"
  device_state :: AmplifierState
  on_update_calls :: "(string \<times> AmplifierState) list"
  requests_sent :: "string list"

text \<open>
  \<open>x / 100\<close> on a JSON value: numbers and booleans divide, anything else raises. The
  quotient is exact; the \<open>OverflowError\<close> of Python for an integer whose quotient is too
  large for a float is not modelled.
\<close>

definition truediv_100 :: "json \<Rightarrow> exn + rat" where
  "truediv_100 v =
     (case v of
        JNum r \<Rightarrow> Inr (r / 100)
      | JBool b \<Rightarrow> Inr ((if b then 1 else 0) / 100)
      | _ \<Rightarrow> Inl (TypeError ''unsupported operand type(s) for /''))"

definition on_off :: "json \<Rightarrow> string" where
  "on_off v = (if truthy v then ''on'' else ''off'')"

text \<open>The three-way translation of the message data (lines 238-264).\<close>

definition state_from_data :: "StreamMagic \<Rightarrow> json \<Rightarrow> exn + AmplifierState" where
  "state_from_data self data =
     bind_exn (subscript data ''pre_amp_mode'') (\<lambda>pre_amp_mode.
       if truthy pre_amp_mode then
         bind_exn (subscript data ''power'') (\<lambda>p.
         bind_exn (subscript data ''mute'') (\<lambda>m.
         bind_exn (bind_exn (subscript data ''volume_percent'') truediv_100) (\<lambda>v.
         Inr \<lparr> name = friendly_name (adapter_device self),
               actions = [''volume'', ''mute'', ''volume_up_down''],
               power_state = Some (on_off p),
               mute = Some (on_off m),
               volume = Some v,
               sources = None \<rparr>)))
       else
         bind_exn (subscript data ''cbus'') (\<lambda>cbus.
           if cbus = JStr ''amplifier'' \<or> cbus = JStr ''receiver'' then
             bind_exn (subscript data ''power'') (\<lambda>p.
             Inr \<lparr> name = friendly_name (adapter_device self),
                   actions = [''volume_up_down''],
                   power_state = Some (on_off p),
                   mute = None,
                   volume = None,
                   sources = None \<rparr>)
           else
             bind_exn (subscript data ''power'') (\<lambda>p.
             Inr \<lparr> name = friendly_name (adapter_device self),
                   actions = [],
                   power_state = Some (on_off p),
                   mute = None,
                   volume = None,
                   sources = None \<rparr>)))"

text \<open>
  The condition of line 229, \<open>parsed["path"] != "/zone/state" or parsed["type"] != "update"\<close>;
  \<open>or\<close> evaluates its right side only when the left one is false.
\<close>

definition discriminators_mismatch :: "json \<Rightarrow> exn + bool" where
  "discriminators_mismatch parsed =
     bind_exn (subscript parsed ''path'') (\<lambda>p.
       if p \<noteq> JStr ''/zone/state'' then Inr True
       else bind_exn (subscript parsed ''type'') (\<lambda>t. Inr (t \<noteq> JStr ''update'')))"

text \<open>
  \<open>_handle_state_message\<close>. The parser \<open>json.loads\<close> is a parameter. The result is the
  adapter after the call and the exception that left the method, if any. The body of the
  \<open>if\<close> of line 229 is \<open>pass\<close>: both outcomes of the condition continue with line 232.
\<close>

definition handle_state_message ::
  "(string \<Rightarrow> exn + json) \<Rightarrow> StreamMagic \<Rightarrow> string \<Rightarrow> StreamMagic \<times> exn option" where
  "handle_state_message json_loads self message =
     (case json_loads message of
        Inl e \<Rightarrow> (if is_KeyError e \<or> is_JSONDecodeError e then (self, None) else (self, Some e))
      | Inr parsed \<Rightarrow>
          (case discriminators_mismatch parsed of
             Inl e \<Rightarrow> (self, Some e)
           | Inr mismatch \<Rightarrow>
               (case bind_exn (bind_exn (subscript parsed ''params'') (\<lambda>ps. subscript ps ''data''))
                       (state_from_data self) of
                  Inl e \<Rightarrow> (self, Some e)
                | Inr st \<Rightarrow>
                    (if has_on_update self
                     then (self\<lparr> device_state := st,
                                on_update_calls := on_update_calls self @ [(''System'', st)] \<rparr>,
                           None)
                     else (self\<lparr> device_state := st \<rparr>,
                           Some (TypeError ''NoneType object is not callable''))))))"

text \<open>
  \<open>_send_state_request\<close>: one GET; \<open>net\<close> tells whether \<open>requests.get\<close> raises on a URL.
\<close>

definition state_request_url :: "StreamMagic \<Rightarrow> string \<Rightarrow> string \<Rightarrow> string" where
  "state_request_url self param v =
     ''http://'' @ format_hostname (device_hostname self) @ ''/smoip/zone/state?'' @ param @ ''='' @ v"

definition send_state_request ::
  "(string \<Rightarrow> exn option) \<Rightarrow> StreamMagic \<Rightarrow> string \<Rightarrow> string \<Rightarrow> StreamMagic \<times> exn option" where
  "send_state_request net self param v =
     (self\<lparr> requests_sent := requests_sent self @ [state_request_url self param v] \<rparr>,
      net (state_request_url self param v))"

text \<open>
  \<open>round(x)\<close>: to the nearest integer, a tie to the even one. The model rounds the exact
  product \<open>volume * 100\<close>; the code rounds the float product, which can fall on the other
  side of a tie (0.575 sends 57 in the code and 58 here).
\<close>

definition py_round :: "rat \<Rightarrow> int" where
  "py_round x =
     (if x - of_int \<lfloor>x\<rfloor> < 1 / 2 then \<lfloor>x\<rfloor>
      else if 1 / 2 < x - of_int \<lfloor>x\<rfloor> then \<lfloor>x\<rfloor> + 1
      else if even \<lfloor>x\<rfloor> then \<lfloor>x\<rfloor> else \<lfloor>x\<rfloor> + 1)"

text \<open>The commands (lines 130-196); each returns the adapter and the exception raised, if any.\<close>

definition power_set :: "(string \<Rightarrow> exn option) \<Rightarrow> StreamMagic \<Rightarrow> string \<Rightarrow> StreamMagic \<times> exn option" where
  "power_set net self state = (self, None)"

definition power_toggle :: "(string \<Rightarrow> exn option) \<Rightarrow> StreamMagic \<Rightarrow> StreamMagic \<times> exn option" where
  "power_toggle net self = (self, None)"

definition volume_set :: "(string \<Rightarrow> exn option) \<Rightarrow> StreamMagic \<Rightarrow> rat \<Rightarrow> StreamMagic \<times> exn option" where
  "volume_set net self v =
     (if ''volume'' \<in> set (actions (device_state self))
      then send_state_request net self ''volume_percent'' (str_int (py_round (v * 100)))
      else (self, None))"

definition volume_up :: "(string \<Rightarrow> exn option) \<Rightarrow> StreamMagic \<Rightarrow> StreamMagic \<times> exn option" where
  "volume_up net self =
     (if ''volume_up_down'' \<in> set (actions (device_state self))
      then send_state_request net self ''volume_step_change'' ''1''
      else (self, None))"

definition volume_down :: "(string \<Rightarrow> exn option) \<Rightarrow> StreamMagic \<Rightarrow> StreamMagic \<times> exn option" where
  "volume_down net self =
     (if ''volume_up_down'' \<in> set (actions (device_state self))
      then send_state_request net self ''volume_step_change'' ''-1''
      else (self, None))"

definition mute_set :: "(string \<Rightarrow> exn option) \<Rightarrow> StreamMagic \<Rightarrow> string \<Rightarrow> StreamMagic \<times> exn option" where
  "mute_set net self state =
     (if ''mute'' \<in> set (actions (device_state self))
      then send_state_request net self ''mute'' (if state = ''on'' then ''true'' else ''false'')
      else (self, None))"

definition mute_toggle :: "(string \<Rightarrow> exn option) \<Rightarrow> StreamMagic \<Rightarrow> StreamMagic \<times> exn option" where
  "mute_toggle net self =
     (if ''mute'' \<in> set (actions (device_state self))
      then send_state_request net self ''mute''
             (if mute (device_state self) = Some ''on'' then ''false'' else ''true'')
      else (self, None))"

definition audio_source_set :: "(string \<Rightarrow> exn option) \<Rightarrow> StreamMagic \<Rightarrow> string \<Rightarrow> StreamMagic \<times> exn option" where
  "audio_source_set net self source = (self, None)"

section \<open>The orchestrator's transport verbs (\<open>base.py\<close>)\<close>

text \<open>
  The streamer behind \<open>Vibin\<close>, as far as the transport verbs see it: what each call
  raises (\<open>None\<close> when it returns).
\<close>

record streamer_calls =
  streamer_pause :: "exn option"
  streamer_play :: "exn option"
  streamer_next_track :: "exn option"
  streamer_previous_track :: "exn option"
  streamer_repeat :: "bool option \<Rightarrow> exn option"
  streamer_shuffle :: "bool option \<Rightarrow> exn option"
  streamer_seek :: "json \<Rightarrow> exn option"

text \<open>
  \<open>except SOAPError as e: code, err = e.args; raise VibinError(f"<what>: [{code}] {err}")\<close>;
  any other exception passes through.
\<close>

definition reraise_SOAPError :: "string \<Rightarrow> exn option \<Rightarrow> exn + unit" where
  "reraise_SOAPError what r =
     (case r of
        None \<Rightarrow> Inr ()
      | Some e \<Rightarrow>
          (case e of
             SOAPError code err \<Rightarrow> Inl (VibinError (what @ '': ['' @ str_int code @ ''] '' @ err))
           | _ \<Rightarrow> Inl e))"

definition pause :: "streamer_calls \<Rightarrow> exn + unit" where
  "pause streamer = reraise_SOAPError ''Unable to perform Pause transition'' (streamer_pause streamer)"

definition play :: "streamer_calls \<Rightarrow> exn + unit" where
  "play streamer = reraise_SOAPError ''Unable to perform Play transition'' (streamer_play streamer)"

definition next_track :: "streamer_calls \<Rightarrow> exn + unit" where
  "next_track streamer =
     reraise_SOAPError ''Unable to perform Next transition'' (streamer_next_track streamer)"

definition previous_track :: "streamer_calls \<Rightarrow> exn + unit" where
  "previous_track streamer =
     reraise_SOAPError ''Unable to perform Previous transition'' (streamer_previous_track streamer)"

definition repeat :: "streamer_calls \<Rightarrow> bool option \<Rightarrow> exn + unit" where
  "repeat streamer enabled =
     reraise_SOAPError ''Unable to interact with Repeat setting'' (streamer_repeat streamer enabled)"

definition shuffle :: "streamer_calls \<Rightarrow> bool option \<Rightarrow> exn + unit" where
  "shuffle streamer enabled =
     reraise_SOAPError ''Unable to interact with Shuffle setting'' (streamer_shuffle streamer enabled)"

text \<open>\<open>seek\<close> calls the streamer with no \<open>try\<close> around the call (lines 245-246).\<close>

definition seek :: "streamer_calls \<Rightarrow> json \<Rightarrow> exn + unit" where
  "seek streamer target = (case streamer_seek streamer target of None \<Rightarrow> Inr () | Some e \<Rightarrow> Inl e)"

section \<open>Example inputs\<close>

text \<open>A streamer, a second renderer and a media server, as a discovery scan finds them.\<close>

definition cxn :: device where
  "cxn = \<lparr> oid = 1, manufacturer = ''Cambridge Audio'',
           device_type = ''urn:schemas-upnp-org:device:MediaRenderer:1'',
           friendly_name = ''Living Room'', model_name = ''CXNv2'',
           location = ''http://192.168.1.10:49152/description.xml'', udn = ''uuid:cxn'' \<rparr>"

definition hegel :: device where
  "hegel = \<lparr> oid = 2, manufacturer = ''Hegel'',
             device_type = ''urn:schemas-upnp-org:device:MediaRenderer:1'',
             friendly_name = ''Amp'', model_name = ''H120'',
             location = ''http://192.168.1.11:80/description.xml'', udn = ''uuid:hegel'' \<rparr>"

definition nas :: device where
  "nas = \<lparr> oid = 3, manufacturer = ''Illustrate'',
           device_type = ''urn:schemas-upnp-org:device:MediaServer:1'',
           friendly_name = ''NAS'', model_name = ''Asset UPnP'',
           location = ''http://192.168.1.12:26125/description.xml'', udn = ''uuid:nas'' \<rparr>"

text \<open>
  A network on which nothing answers: a string is a URL when it starts with \<open>http://\<close>,
  every description fetch and every GET fails to connect.
\<close>

definition offline_env :: env where
  "offline_env =
     \<lparr> urlparse_hostname =
         (\<lambda>s. Inr (if starts_with ''http://'' s
                    then Some (takeWhile (\<lambda>c. c \<noteq> CHR '':'' \<and> c \<noteq> CHR ''/'') (drop 7 s))
                    else None)),
       upnp_Device = (\<lambda>v. Inl (RequestException ''connection refused'')),
       requests_get = (\<lambda>u. Inl (RequestException ''connection refused'')),
       py_repr = (\<lambda>v. ''<value>'') \<rparr>"

text \<open>The same network with the streamer's description reachable.\<close>

definition online_env :: env where
  "online_env =
     offline_env\<lparr> upnp_Device :=
       (\<lambda>v. if v = JStr (location cxn) then Inr cxn
             else Inl (RequestException ''connection refused'')) \<rparr>"

text \<open>Hosts whose probe times out, answers 200 with HTML, or answers 200 with JSON lacking \<open>data\<close>.\<close>

definition timeout_env :: env where
  "timeout_env = offline_env\<lparr> requests_get := (\<lambda>u. Inl (Timeout ''read timed out'')) \<rparr>"

definition html_env :: env where
  "html_env =
     offline_env\<lparr> requests_get :=
       (\<lambda>u. Inr \<lparr> status_code = 200, json_body = Inl (JSONDecodeError ''Expecting value'') \<rparr>) \<rparr>"

definition other_json_env :: env where
  "other_json_env =
     offline_env\<lparr> requests_get :=
       (\<lambda>u. Inr \<lparr> status_code = 200, json_body = Inr (JObj [(''status'', JStr ''ok'')]) \<rparr>) \<rparr>"

text \<open>A host that answers 200 with a Cambridge Audio entry that has no \<open>description_url\<close>.\<close>

definition no_url_response :: response where
  "no_url_response =
     \<lparr> status_code = 200,
       json_body = Inr (JObj [(''data'', JObj [(''devices'',
                     JArr [JObj [(''manufacturer'', JStr ''Cambridge Audio'')]])])]) \<rparr>"

definition no_url_env :: env where
  "no_url_env = offline_env\<lparr> requests_get := (\<lambda>u. Inr no_url_response) \<rparr>"

text \<open>
  The streamer's device as two further objects: the one that \<open>upnpclient.Device\<close> builds
  when the description is fetched by URL, and a second entry of the scan for the same
  device, found at another address.
\<close>

definition cxn_fetched :: device where
  "cxn_fetched = cxn\<lparr> oid := 7 \<rparr>"

definition fetching_env :: env where
  "fetching_env =
     offline_env\<lparr> upnp_Device :=
       (\<lambda>v. if v = JStr (location cxn) then Inr cxn_fetched
             else Inl (RequestException ''connection refused'')) \<rparr>"


text \<open>Two registered streamer implementations.\<close>

definition CXNv2_class :: adapter_class where
  "CXNv2_class = \<lparr> class_name = ''CXNv2'', class_model_name = ''CXNv2'' \<rparr>"

definition StreamMagic_class :: adapter_class where
  "StreamMagic_class = \<lparr> class_name = ''StreamMagic'', class_model_name = ''StreamMagic'' \<rparr>"

text \<open>The adapter as \<open>__init__\<close> leaves it (lines 58-71), with an update callback.\<close>

definition new_adapter :: StreamMagic where
  "new_adapter =
     \<lparr> adapter_device = cxn,
       has_on_update = True,
       device_hostname = Some ''192.168.1.10'',
       device_state = \<lparr> name = friendly_name cxn, actions = [], power_state = None,
                        mute = None, volume = None, sources = None \<rparr>,
       on_update_calls = [],
       requests_sent = [] \<rparr>"

text \<open>Three messages of the state channel and the values \<open>json.loads\<close> gives for them.\<close>

definition preamp_message :: string where
  "preamp_message =
     ''{\"path\": \"/zone/state\", \"type\": \"update\", \"params\": {\"data\": {\"pre_amp_mode\": true, \"power\": true, \"mute\": false, \"volume_percent\": 42}}}''"

definition preamp_parsed :: json where
  "preamp_parsed =
     JObj [(''path'', JStr ''/zone/state''), (''type'', JStr ''update''),
           (''params'', JObj [(''data'',
              JObj [(''pre_amp_mode'', JBool True), (''power'', JBool True),
                    (''mute'', JBool False), (''volume_percent'', JNum 42)])])]"

definition cbus_message :: string where
  "cbus_message =
     ''{\"path\": \"/zone/state\", \"type\": \"update\", \"params\": {\"data\": {\"pre_amp_mode\": false, \"cbus\": \"amplifier\", \"power\": false}}}''"

definition cbus_parsed :: json where
  "cbus_parsed =
     JObj [(''path'', JStr ''/zone/state''), (''type'', JStr ''update''),
           (''params'', JObj [(''data'',
              JObj [(''pre_amp_mode'', JBool False), (''cbus'', JStr ''amplifier''),
                    (''power'', JBool False)])])]"

definition other_path_message :: string where
  "other_path_message =
     ''{\"path\": \"/zone/play_state\", \"type\": \"update\", \"params\": {\"data\": {\"pre_amp_mode\": true, \"power\": true, \"mute\": false, \"volume_percent\": 42}}}''"

definition other_path_parsed :: json where
  "other_path_parsed =
     JObj [(''path'', JStr ''/zone/play_state''), (''type'', JStr ''update''),
           (''params'', JObj [(''data'',
              JObj [(''pre_amp_mode'', JBool True), (''power'', JBool True),
                    (''mute'', JBool False), (''volume_percent'', JNum 42)])])]"

definition example_loads :: "string \<Rightarrow> exn + json" where
  "example_loads message =
     (if message = preamp_message then Inr preamp_parsed
      else if message = cbus_message then Inr cbus_parsed
      else if message = other_path_message then Inr other_path_parsed
      else Inl (JSONDecodeError ''Expecting value''))"

text \<open>A network that accepts every GET.\<close>

definition net_ok :: "string \<Rightarrow> exn option" where
  "net_ok url = None"

text \<open>A streamer that is not playing: every transport call raises UPnP fault 701.\<close>

definition stopped_streamer :: streamer_calls where
  "stopped_streamer =
     \<lparr> streamer_pause = Some (SOAPError 701 ''Transition not available''),
       streamer_play = Some (SOAPError 701 ''Transition not available''),
       streamer_next_track = Some (SOAPError 701 ''Transition not available''),
       streamer_previous_track = Some (SOAPError 701 ''Transition not available''),
       streamer_repeat = (\<lambda>enabled. Some (SOAPError 701 ''Transition not available'')),
       streamer_shuffle = (\<lambda>enabled. Some (SOAPError 701 ''Transition not available'')),
       streamer_seek = (\<lambda>target. Some (SOAPError 701 ''Transition not available'')) \<rparr>"

section \<open>Shared facts\<close>

text \<open>\<open>[x for x in xs if P x][0]\<close> is the first element that satisfies \<open>P\<close>, or an \<open>IndexError\<close>.\<close>

lemma index0_filter_find:
  "index0 (filter P xs) =
     (case find P xs of None \<Rightarrow> Inl (IndexError ''list index out of range'') | Some x \<Rightarrow> Inr x)"
  by (induction xs) (auto simp: index0_def)

text \<open>With no hint, or the empty string, the amplifier resolver only looks at the snapshot.\<close>

lemma amplifier_no_hint_unfold:
  "amplifier_input = None \<or> amplifier_input = Some '''' \<Longrightarrow>
   determine_amplifier_device E devices amplifier_input streamer_device =
     amplifier_auto_discover devices streamer_device"
  by (auto simp: determine_amplifier_device_def)

text \<open>A hint that is not a URL sends the streamer resolver to the vendor probe.\<close>

lemma streamer_hint_unfold:
  "s \<noteq> [] \<Longrightarrow> urlparse_hostname E s = Inr None \<Longrightarrow>
   determine_streamer_device E devices (Some s) = streamer_by_hostname_or_name E devices s"
  by (simp add: determine_streamer_device_def)

lemma streamer_probe_request_exception:
  "requests_get E (probe_url s) = Inl e \<Longrightarrow> is_RequestException e \<Longrightarrow> \<not> is_Timeout e \<Longrightarrow>
   streamer_by_hostname_or_name E devices s = streamer_by_friendly_name devices s"
  by (simp add: streamer_by_hostname_or_name_def bind_exn_def)

lemma streamer_probe_timeout:
  "requests_get E (probe_url s) = Inl e \<Longrightarrow> is_Timeout e \<Longrightarrow>
   streamer_by_hostname_or_name E devices s
     = Inl (VibinError (''Timed out attempting to connect to '' @ s))"
  by (simp add: streamer_by_hostname_or_name_def bind_exn_def)

lemma streamer_probe_not_json:
  "requests_get E (probe_url s) = Inr resp \<Longrightarrow> status_code resp = 200 \<Longrightarrow>
   json_body resp = Inl (JSONDecodeError m) \<Longrightarrow>
   streamer_by_hostname_or_name E devices s
     = Inl (VibinError (''A host was found at '' @ s
                        @ '', but it does not appear to be a Cambridge Audio device.''))"
  by (simp add: streamer_by_hostname_or_name_def streamer_from_probe_response_def
        cambridge_entries_def bind_exn_def)

lemma streamer_probe_no_data:
  "requests_get E (probe_url s) = Inr resp \<Longrightarrow> status_code resp = 200 \<Longrightarrow>
   json_body resp = Inr j \<Longrightarrow> subscript j ''data'' = Inl (KeyError k) \<Longrightarrow>
   streamer_by_hostname_or_name E devices s
     = Inl (VibinError (''A host was found at '' @ s
                        @ '', but it does not appear to be a Cambridge Audio device.''))"
  by (simp add: streamer_by_hostname_or_name_def streamer_from_probe_response_def
        cambridge_entries_def bind_exn_def)

lemma streamer_probe_no_devices:
  "requests_get E (probe_url s) = Inr resp \<Longrightarrow> status_code resp = 200 \<Longrightarrow>
   json_body resp = Inr j \<Longrightarrow> subscript j ''data'' = Inr d \<Longrightarrow>
   subscript d ''devices'' = Inl (KeyError k) \<Longrightarrow>
   streamer_by_hostname_or_name E devices s
     = Inl (VibinError (''A host was found at '' @ s
                        @ '', but it does not appear to be a Cambridge Audio device.''))"
  by (simp add: streamer_by_hostname_or_name_def streamer_from_probe_response_def
        cambridge_entries_def bind_exn_def)

lemma streamer_probe_no_manufacturer:
  "requests_get E (probe_url s) = Inr resp \<Longrightarrow> status_code resp = 200 \<Longrightarrow>
   cambridge_entries resp = Inl (KeyError k) \<Longrightarrow>
   streamer_by_hostname_or_name E devices s
     = Inl (VibinError (''A host was found at '' @ s
                        @ '', but it does not appear to be a Cambridge Audio device.''))"
  by (simp add: streamer_by_hostname_or_name_def streamer_from_probe_response_def bind_exn_def)

lemma streamer_probe_no_description_url:
  "requests_get E (probe_url s) = Inr resp \<Longrightarrow> status_code resp = 200 \<Longrightarrow>
   cambridge_entries resp = Inr (entry # rest) \<Longrightarrow>
   subscript entry ''description_url'' = Inl (KeyError k) \<Longrightarrow>
   streamer_by_hostname_or_name E devices s
     = Inl (VibinError (''Cambridge Audio device found at '' @ s
                        @ '', but it did not have a description_url''))"
  by (simp add: streamer_by_hostname_or_name_def streamer_from_probe_response_def
        streamer_from_probe_entry_def index0_def bind_exn_def)

lemma streamer_by_friendly_name_no_match:
  "\<forall>d \<in> set devices. friendly_name d \<noteq> s \<Longrightarrow>
   streamer_by_friendly_name devices s =
     Inl (VibinError (''Could not find a UPnP device with friendly name '' @ [CHR 0x27] @ s @ [CHR 0x27]))"
  by (simp add: streamer_by_friendly_name_def index0_def)

text \<open>The resolver reads the collaborators only through their answers.\<close>

lemma format_value_cong:
  "py_repr E = py_repr E' \<Longrightarrow> format_value E v = format_value E' v"
  by (cases v) (simp_all add: format_value_def)

lemma streamer_from_probe_entry_cong:
  assumes "upnp_Device E = upnp_Device E'" and "py_repr E = py_repr E'"
  shows "streamer_from_probe_entry E s = streamer_from_probe_entry E' s"
proof -
  have f: "format_value E = format_value E'"
    using assms(2) by (intro ext) (rule format_value_cong)
  show ?thesis
    unfolding streamer_from_probe_entry_def f assms(1) by (rule refl)
qed

lemma streamer_from_probe_response_cong:
  assumes "upnp_Device E = upnp_Device E'" and "py_repr E = py_repr E'"
  shows "streamer_from_probe_response E s resp = streamer_from_probe_response E' s resp"
  by (simp add: streamer_from_probe_response_def streamer_from_probe_entry_cong [OF assms])

text \<open>An unknown type name is found in no list of classes.\<close>

lemma find_no_class:
  "\<forall>c \<in> set known. class_name c \<noteq> t \<Longrightarrow> find (\<lambda>c. class_name c = t) known = None"
  by (simp add: find_None_iff)

text \<open>
  A message with both discriminators and \<open>params.data\<close> present replaces the state by
  the translation of its data.
\<close>

lemma handle_accepted:
  assumes "json_loads message = Inr parsed"
    and "subscript parsed ''path'' = Inr p"
    and "subscript parsed ''type'' = Inr t"
    and "subscript parsed ''params'' = Inr ps"
    and "subscript ps ''data'' = Inr data"
    and "state_from_data self data = Inr st"
  shows "device_state (fst (handle_state_message json_loads self message)) = st"
  using assms by (auto simp: handle_state_message_def discriminators_mismatch_def bind_exn_def)

text \<open>
  Six of the transport verbs turn a \<open>SOAPError\<close> of the streamer into a \<open>VibinError\<close>
  that names the operation and carries the fault's code and message.
\<close>

lemma transport_verbs_reraise:
  "streamer_pause streamer = Some (SOAPError code err) \<Longrightarrow>
     pause streamer = Inl (VibinError (''Unable to perform Pause transition: ['' @ str_int code @ ''] '' @ err))"
  "streamer_play streamer = Some (SOAPError code err) \<Longrightarrow>
     play streamer = Inl (VibinError (''Unable to perform Play transition: ['' @ str_int code @ ''] '' @ err))"
  "streamer_next_track streamer = Some (SOAPError code err) \<Longrightarrow>
     next_track streamer = Inl (VibinError (''Unable to perform Next transition: ['' @ str_int code @ ''] '' @ err))"
  "streamer_previous_track streamer = Some (SOAPError code err) \<Longrightarrow>
     previous_track streamer = Inl (VibinError (''Unable to perform Previous transition: ['' @ str_int code @ ''] '' @ err))"
  "streamer_repeat streamer enabled = Some (SOAPError code err) \<Longrightarrow>
     repeat streamer enabled = Inl (VibinError (''Unable to interact with Repeat setting: ['' @ str_int code @ ''] '' @ err))"
  "streamer_shuffle streamer enabled = Some (SOAPError code err) \<Longrightarrow>
     shuffle streamer enabled = Inl (VibinError (''Unable to interact with Shuffle setting: ['' @ str_int code @ ''] '' @ err))"
  by (simp_all add: pause_def play_def next_track_def previous_track_def repeat_def shuffle_def
        reraise_SOAPError_def)

text \<open>Facts about the example inputs.\<close>

lemma example_hostnames:
  "urlparse_hostname offline_env ''Kitchen'' = Inr None"
  "urlparse_hostname offline_env ''Living Room'' = Inr None"
  "urlparse_hostname timeout_env ''Living Room'' = Inr None"
  "urlparse_hostname html_env ''Living Room'' = Inr None"
  "urlparse_hostname other_json_env ''Living Room'' = Inr None"
  "urlparse_hostname no_url_env ''Living Room'' = Inr None"
  by (simp_all add: offline_env_def timeout_env_def html_env_def other_json_env_def no_url_env_def)

lemma example_friendly_names:
  "friendly_name cxn = ''Living Room''" "friendly_name hegel = ''Amp''" "friendly_name nas = ''NAS''"
  by (simp_all add: cxn_def hegel_def nas_def)

lemma example_loads_values:
  "example_loads preamp_message = Inr preamp_parsed"
  "example_loads cbus_message = Inr cbus_parsed"
  "example_loads other_path_message = Inr other_path_parsed"
  by (simp_all add: example_loads_def preamp_message_def cbus_message_def other_path_message_def)

lemma str_int_701: "str_int 701 = ''701''"
  by (simp add: str_int_def str_nat.simps)

section \<open>The state channel\<close>

text \<open>
  C1. The claim: a state message that parses as JSON but whose path is not
  \<open>/zone/state\<close>, or whose type is not \<open>update\<close>, is dropped: the snapshot stays and the
  update callback is not called. The code tests the two discriminators and then does
  nothing with the outcome (the body of the test is \<open>pass\<close>), so the message is
  translated all the same. Here a message with path \<open>/zone/play_state\<close> reaches a fresh
  adapter: the discriminators do not match, yet the snapshot is replaced and the callback
  is called once with the new snapshot.
\<close>

theorem mismatched_path_is_processed:
  "discriminators_mismatch other_path_parsed = Inr True
   \<and> handle_state_message example_loads new_adapter other_path_message
     = (new_adapter
          \<lparr> device_state :=
              \<lparr> name = ''Living Room'', actions = [''volume'', ''mute'', ''volume_up_down''],
                power_state = Some ''on'', mute = Some ''off'', volume = Some (42 / 100),
                sources = None \<rparr>,
            on_update_calls :=
              [(''System'',
                \<lparr> name = ''Living Room'', actions = [''volume'', ''mute'', ''volume_up_down''],
                  power_state = Some ''on'', mute = Some ''off'', volume = Some (42 / 100),
                  sources = None \<rparr>)] \<rparr>,
        None)
   \<and> handle_state_message example_loads new_adapter other_path_message \<noteq> (new_adapter, None)"
  by (simp add: handle_state_message_def example_loads_values discriminators_mismatch_def
        bind_exn_def state_from_data_def truthy_def on_off_def truediv_100_def new_adapter_def
        example_friendly_names subscript_def other_path_parsed_def)

text \<open>
  C5. For every accepted state message (path \<open>/zone/state\<close>, type \<open>update\<close>, data under
  \<open>params.data\<close>): when the data reports \<open>pre_amp_mode\<close> true, \<open>power\<close> true, \<open>mute\<close>
  false and \<open>volume_percent\<close> 42, the resulting state has the capability set
  \<open>{volume, mute, volume_up_down}\<close>, power on, mute off and volume 0.42 (the percentage
  divided by 100); when it reports \<open>pre_amp_mode\<close> false, \<open>cbus\<close> \<open>amplifier\<close> and
  \<open>power\<close> false, the state has the capability set \<open>{volume_up_down}\<close>, power off, and
  neither mute nor volume. Other fields of the data do not matter.
\<close>

theorem state_message_translation:
  assumes "json_loads message = Inr parsed"
    and "subscript parsed ''path'' = Inr (JStr ''/zone/state'')"
    and "subscript parsed ''type'' = Inr (JStr ''update'')"
    and "subscript parsed ''params'' = Inr ps"
    and "subscript ps ''data'' = Inr data"
  shows "(subscript data ''pre_amp_mode'' = Inr (JBool True)
          \<and> subscript data ''power'' = Inr (JBool True)
          \<and> subscript data ''mute'' = Inr (JBool False)
          \<and> subscript data ''volume_percent'' = Inr (JNum 42) \<longrightarrow>
            set (actions (device_state (fst (handle_state_message json_loads self message))))
              = {''volume'', ''mute'', ''volume_up_down''}
          \<and> power_state (device_state (fst (handle_state_message json_loads self message))) = Some ''on''
          \<and> mute (device_state (fst (handle_state_message json_loads self message))) = Some ''off''
          \<and> volume (device_state (fst (handle_state_message json_loads self message))) = Some 0.42
          \<and> volume (device_state (fst (handle_state_message json_loads self message))) = Some (42 / 100))
       \<and> (subscript data ''pre_amp_mode'' = Inr (JBool False)
          \<and> subscript data ''cbus'' = Inr (JStr ''amplifier'')
          \<and> subscript data ''power'' = Inr (JBool False) \<longrightarrow>
            set (actions (device_state (fst (handle_state_message json_loads self message))))
              = {''volume_up_down''}
          \<and> power_state (device_state (fst (handle_state_message json_loads self message))) = Some ''off''
          \<and> mute (device_state (fst (handle_state_message json_loads self message))) = None
          \<and> volume (device_state (fst (handle_state_message json_loads self message))) = None)"
proof -
  have pre: "state_from_data self data =
       Inr \<lparr> name = friendly_name (adapter_device self),
             actions = [''volume'', ''mute'', ''volume_up_down''],
             power_state = Some ''on'', mute = Some ''off'', volume = Some (42 / 100),
             sources = None \<rparr>"
    if "subscript data ''pre_amp_mode'' = Inr (JBool True)"
       "subscript data ''power'' = Inr (JBool True)"
       "subscript data ''mute'' = Inr (JBool False)"
       "subscript data ''volume_percent'' = Inr (JNum 42)"
    using that by (simp add: state_from_data_def bind_exn_def truthy_def on_off_def truediv_100_def)
  have cbus: "state_from_data self data =
       Inr \<lparr> name = friendly_name (adapter_device self),
             actions = [''volume_up_down''],
             power_state = Some ''off'', mute = None, volume = None, sources = None \<rparr>"
    if "subscript data ''pre_amp_mode'' = Inr (JBool False)"
       "subscript data ''cbus'' = Inr (JStr ''amplifier'')"
       "subscript data ''power'' = Inr (JBool False)"
    using that by (simp add: state_from_data_def bind_exn_def truthy_def on_off_def)
  have h: "\<And>st. state_from_data self data = Inr st \<Longrightarrow>
             device_state (fst (handle_state_message json_loads self message)) = st"
    using assms handle_accepted [of json_loads message parsed "JStr ''/zone/state''"
                                    "JStr ''update''" ps data self]
    by blast
  show ?thesis
  proof (intro conjI impI)
    assume a: "subscript data ''pre_amp_mode'' = Inr (JBool True)
          \<and> subscript data ''power'' = Inr (JBool True)
          \<and> subscript data ''mute'' = Inr (JBool False)
          \<and> subscript data ''volume_percent'' = Inr (JNum 42)"
    from a have e: "device_state (fst (handle_state_message json_loads self message)) =
       \<lparr> name = friendly_name (adapter_device self),
             actions = [''volume'', ''mute'', ''volume_up_down''],
             power_state = Some ''on'', mute = Some ''off'', volume = Some (42 / 100),
             sources = None \<rparr>"
      using h pre by blast
    show "set (actions (device_state (fst (handle_state_message json_loads self message))))
              = {''volume'', ''mute'', ''volume_up_down''}"
      unfolding e by auto
    show "power_state (device_state (fst (handle_state_message json_loads self message))) = Some ''on''"
      unfolding e by simp
    show "mute (device_state (fst (handle_state_message json_loads self message))) = Some ''off''"
      unfolding e by simp
    show "volume (device_state (fst (handle_state_message json_loads self message))) = Some 0.42"
      unfolding e by simp
    show "volume (device_state (fst (handle_state_message json_loads self message))) = Some (42 / 100)"
      unfolding e by simp
  next
    assume a: "subscript data ''pre_amp_mode'' = Inr (JBool False)
          \<and> subscript data ''cbus'' = Inr (JStr ''amplifier'')
          \<and> subscript data ''power'' = Inr (JBool False)"
    from a have e: "device_state (fst (handle_state_message json_loads self message)) =
       \<lparr> name = friendly_name (adapter_device self),
             actions = [''volume_up_down''],
             power_state = Some ''off'', mute = None, volume = None, sources = None \<rparr>"
      using h cbus by blast
    show "set (actions (device_state (fst (handle_state_message json_loads self message))))
              = {''volume_up_down''}"
      unfolding e by simp
    show "power_state (device_state (fst (handle_state_message json_loads self message))) = Some ''off''"
      unfolding e by simp
    show "mute (device_state (fst (handle_state_message json_loads self message))) = None"
      unfolding e by simp
    show "volume (device_state (fst (handle_state_message json_loads self message))) = None"
      unfolding e by simp
  qed
qed

theorem state_message_translation_witness:
  "device_state (fst (handle_state_message example_loads new_adapter preamp_message))
     = \<lparr> name = ''Living Room'', actions = [''volume'', ''mute'', ''volume_up_down''],
         power_state = Some ''on'', mute = Some ''off'', volume = Some 0.42, sources = None \<rparr>
   \<and> set (actions (device_state (fst (handle_state_message example_loads new_adapter preamp_message))))
       = {''volume'', ''mute'', ''volume_up_down''}
   \<and> set (actions (device_state (fst (handle_state_message example_loads new_adapter cbus_message))))
       = {''volume_up_down''}
   \<and> power_state (device_state (fst (handle_state_message example_loads new_adapter cbus_message)))
       = Some ''off''
   \<and> mute (device_state (fst (handle_state_message example_loads new_adapter cbus_message))) = None
   \<and> volume (device_state (fst (handle_state_message example_loads new_adapter cbus_message))) = None"
proof -
  have full: "device_state (fst (handle_state_message example_loads new_adapter preamp_message))
     = \<lparr> name = ''Living Room'', actions = [''volume'', ''mute'', ''volume_up_down''],
         power_state = Some ''on'', mute = Some ''off'', volume = Some 0.42, sources = None \<rparr>"
    by (simp add: handle_state_message_def example_loads_values discriminators_mismatch_def
          bind_exn_def state_from_data_def truthy_def on_off_def truediv_100_def new_adapter_def
          example_friendly_names subscript_def preamp_parsed_def)
  show ?thesis
    using state_message_translation
            [of example_loads preamp_message preamp_parsed
                "JObj [(''data'',
                   JObj [(''pre_amp_mode'', JBool True), (''power'', JBool True),
                         (''mute'', JBool False), (''volume_percent'', JNum 42)])]"
                "JObj [(''pre_amp_mode'', JBool True), (''power'', JBool True),
                       (''mute'', JBool False), (''volume_percent'', JNum 42)]"
                new_adapter]
          state_message_translation
            [of example_loads cbus_message cbus_parsed
                "JObj [(''data'',
                   JObj [(''pre_amp_mode'', JBool False), (''cbus'', JStr ''amplifier''),
                         (''power'', JBool False)])]"
                "JObj [(''pre_amp_mode'', JBool False), (''cbus'', JStr ''amplifier''),
                       (''power'', JBool False)]"
                new_adapter]
    by (simp add: example_loads_values full subscript_def preamp_parsed_def cbus_parsed_def)
qed

section \<open>Capability-gated commands\<close>

text \<open>
  C6. When \<open>volume\<close> is absent from the current capability set, setting the volume sends
  nothing, leaves the adapter as it is and raises nothing; the same holds for the volume
  steps when \<open>volume_up_down\<close> is absent and for the two mute commands when \<open>mute\<close> is
  absent. The adapter returned is the adapter given, so its state and its trace of
  outbound requests are unchanged.
\<close>

theorem absent_capability_is_noop:
  "(''volume'' \<notin> set (actions (device_state self)) \<longrightarrow> volume_set net self v = (self, None))
   \<and> (''volume_up_down'' \<notin> set (actions (device_state self)) \<longrightarrow>
        volume_up net self = (self, None) \<and> volume_down net self = (self, None))
   \<and> (''mute'' \<notin> set (actions (device_state self)) \<longrightarrow>
        mute_set net self state = (self, None) \<and> mute_toggle net self = (self, None))"
  by (simp add: volume_set_def volume_up_def volume_down_def mute_set_def mute_toggle_def)

theorem absent_capability_is_noop_witness:
  "''volume'' \<notin> set (actions (device_state new_adapter))
   \<and> ''volume_up_down'' \<notin> set (actions (device_state new_adapter))
   \<and> ''mute'' \<notin> set (actions (device_state new_adapter))
   \<and> volume_set net_ok new_adapter (1 / 2) = (new_adapter, None)
   \<and> requests_sent (fst (volume_set net_ok new_adapter (1 / 2))) = []
   \<and> volume_up net_ok new_adapter = (new_adapter, None)
   \<and> volume_down net_ok new_adapter = (new_adapter, None)
   \<and> mute_set net_ok new_adapter ''on'' = (new_adapter, None)
   \<and> mute_toggle net_ok new_adapter = (new_adapter, None)"
  using absent_capability_is_noop [of new_adapter net_ok "1 / 2" "''on''"]
  by (simp add: new_adapter_def)

section \<open>Transport verbs\<close>

text \<open>
  C2. The claim: each of play, pause, next, previous, seek, repeat and shuffle catches a
  transport fault of the streamer and raises one uniform \<open>VibinError\<close> instead. Six of
  the verbs do (\<open>transport_verbs_reraise\<close>); \<open>seek\<close> calls the streamer outside any
  \<open>try\<close>. Here the streamer answers every call with UPnP fault 701: \<open>seek\<close> lets the
  \<open>SOAPError\<close> itself reach the caller, where \<open>pause\<close> raises a \<open>VibinError\<close>.
\<close>

theorem seek_lets_SOAPError_through:
  "streamer_seek stopped_streamer (JNum 30) = Some (SOAPError 701 ''Transition not available'')
   \<and> seek stopped_streamer (JNum 30) = Inl (SOAPError 701 ''Transition not available'')
   \<and> pause stopped_streamer
       = Inl (VibinError ''Unable to perform Pause transition: [701] Transition not available'')"
  by (simp add: seek_def pause_def reraise_SOAPError_def stopped_streamer_def str_int_701)

section \<open>Resolution by friendly name\<close>

text \<open>
  The claim C3 says that a friendly-name hint matching no device makes the media-server
  and the amplifier resolver return no device. On the example snapshot, with the hint
  \<open>Kitchen\<close>, both raise a \<open>VibinError\<close> instead.
\<close>

theorem friendly_name_no_match_counterexample:
  "friendly_name cxn \<noteq> ''Kitchen'' \<and> friendly_name nas \<noteq> ''Kitchen''
   \<and> determine_media_server_device offline_env [cxn, nas] (Some ''Kitchen'') cxn
       = Inl (VibinError (''Could not find a UPnP device with friendly name '' @ [CHR 0x27] @ ''Kitchen'' @ [CHR 0x27]))
   \<and> determine_media_server_device offline_env [cxn, nas] (Some ''Kitchen'') cxn \<noteq> Inr None
   \<and> determine_amplifier_device offline_env [cxn, nas] (Some ''Kitchen'') cxn
       = Inl (VibinError (''Could not find a UPnP device with friendly name '' @ [CHR 0x27] @ ''Kitchen'' @ [CHR 0x27]))
   \<and> determine_amplifier_device offline_env [cxn, nas] (Some ''Kitchen'') cxn \<noteq> Inr None"
  by (simp add: determine_media_server_device_def media_server_by_hint_def
        determine_amplifier_device_def amplifier_by_hint_def example_hostnames
        example_friendly_names index0_def)

text \<open>
  C3, as amended. For every snapshot and every hint that is not empty, is not a URL and is
  the friendly name of no device of the snapshot: media-server resolution and amplifier
  resolution both fail with the \<open>VibinError\<close> "Could not find a UPnP device with
  friendly name '<hint>'", and so does streamer resolution once the vendor probe of the
  hint has failed with a request error that is not a timeout (which is how a friendly
  name reaches the friendly-name step of the streamer).
\<close>

theorem friendly_name_no_match_raises:
  assumes "s \<noteq> []"
    and "urlparse_hostname E s = Inr None"
    and "\<forall>d \<in> set devices. friendly_name d \<noteq> s"
  shows "determine_media_server_device E devices (Some s) streamer_device
           = Inl (VibinError (''Could not find a UPnP device with friendly name ''
                              @ [CHR 0x27] @ s @ [CHR 0x27]))
       \<and> determine_amplifier_device E devices (Some s) streamer_device
           = Inl (VibinError (''Could not find a UPnP device with friendly name ''
                              @ [CHR 0x27] @ s @ [CHR 0x27]))
       \<and> (requests_get E (probe_url s) = Inl e \<and> is_RequestException e \<and> \<not> is_Timeout e \<longrightarrow>
            determine_streamer_device E devices (Some s)
              = Inl (VibinError (''Could not find a UPnP device with friendly name ''
                                 @ [CHR 0x27] @ s @ [CHR 0x27])))"
proof -
  have none: "index0 (filter (\<lambda>d. friendly_name d = s) devices)
                = Inl (IndexError ''list index out of range'')"
    using assms(3) by (simp add: index0_def)
  have ms: "determine_media_server_device E devices (Some s) streamer_device
           = Inl (VibinError (''Could not find a UPnP device with friendly name ''
                              @ [CHR 0x27] @ s @ [CHR 0x27]))"
    using assms(1,2) none
    by (simp add: determine_media_server_device_def media_server_by_hint_def)
  have amp: "determine_amplifier_device E devices (Some s) streamer_device
           = Inl (VibinError (''Could not find a UPnP device with friendly name ''
                              @ [CHR 0x27] @ s @ [CHR 0x27]))"
    using assms(1,2) none
    by (simp add: determine_amplifier_device_def amplifier_by_hint_def)
  have str: "requests_get E (probe_url s) = Inl e \<Longrightarrow> is_RequestException e \<Longrightarrow> \<not> is_Timeout e \<Longrightarrow>
            determine_streamer_device E devices (Some s)
              = Inl (VibinError (''Could not find a UPnP device with friendly name ''
                                 @ [CHR 0x27] @ s @ [CHR 0x27]))"
    using assms
    by (simp add: streamer_hint_unfold streamer_probe_request_exception
          streamer_by_friendly_name_no_match)
  show ?thesis using ms amp str by blast
qed

theorem friendly_name_no_match_raises_witness:
  "determine_media_server_device offline_env [cxn, nas] (Some ''Kitchen'') hegel
     = Inl (VibinError (''Could not find a UPnP device with friendly name '' @ [CHR 0x27] @ ''Kitchen'' @ [CHR 0x27]))
   \<and> determine_amplifier_device offline_env [cxn, nas] (Some ''Kitchen'') hegel
     = Inl (VibinError (''Could not find a UPnP device with friendly name '' @ [CHR 0x27] @ ''Kitchen'' @ [CHR 0x27]))
   \<and> determine_streamer_device offline_env [cxn, nas] (Some ''Kitchen'')
     = Inl (VibinError (''Could not find a UPnP device with friendly name '' @ [CHR 0x27] @ ''Kitchen'' @ [CHR 0x27]))"
  using friendly_name_no_match_raises
          [of "''Kitchen''" offline_env "[cxn, nas]" hegel "RequestException ''connection refused''"]
  by (simp add: example_hostnames example_friendly_names offline_env_def)

section \<open>The vendor probe\<close>

text \<open>
  The claim C4 says that a probe that times out falls through to the friendly-name step.
  On the example snapshot the hint \<open>Living Room\<close> is the streamer's friendly name, so the
  friendly-name step would find it; with a probe that times out, resolution fails instead.
\<close>

theorem probe_timeout_counterexample:
  "determine_streamer_device timeout_env [cxn, nas] (Some ''Living Room'')
     = Inl (VibinError ''Timed out attempting to connect to Living Room'')
   \<and> streamer_by_friendly_name [cxn, nas] ''Living Room'' = Inr (Some cxn)
   \<and> determine_streamer_device timeout_env [cxn, nas] (Some ''Living Room'')
     \<noteq> streamer_by_friendly_name [cxn, nas] ''Living Room''"
  by (simp add: streamer_hint_unfold example_hostnames streamer_by_hostname_or_name_def
        bind_exn_def timeout_env_def offline_env_def streamer_by_friendly_name_def
        example_friendly_names index0_def)

text \<open>
  C4, as amended. For every streamer hint that is a bare host or name: when the vendor
  probe fails with a request error that is not a timeout, resolution continues with the
  friendly-name step; when the probe times out, resolution fails with the \<open>VibinError\<close>
  "Timed out attempting to connect to <hint>"; when the probe answers 200 with a body
  that is not JSON, or with JSON that lacks \<open>data\<close>, \<open>data.devices\<close> or the
  \<open>manufacturer\<close> of an entry, resolution fails with the \<open>VibinError\<close> "A host was
  found at <hint>, but it does not appear to be a Cambridge Audio device."; when the
  first Cambridge Audio entry of the answer lacks \<open>description_url\<close>, resolution fails
  with the \<open>VibinError\<close> "Cambridge Audio device found at <hint>, but it did not have
  a description_url".
\<close>

theorem probe_outcomes:
  assumes "s \<noteq> []"
    and "urlparse_hostname E s = Inr None"
  shows "(requests_get E (probe_url s) = Inl e \<and> is_RequestException e \<and> \<not> is_Timeout e \<longrightarrow>
            determine_streamer_device E devices (Some s) = streamer_by_friendly_name devices s)
       \<and> (requests_get E (probe_url s) = Inl e \<and> is_Timeout e \<longrightarrow>
            determine_streamer_device E devices (Some s)
              = Inl (VibinError (''Timed out attempting to connect to '' @ s)))
       \<and> (requests_get E (probe_url s) = Inr resp \<and> status_code resp = 200
            \<and> json_body resp = Inl (JSONDecodeError m) \<longrightarrow>
            determine_streamer_device E devices (Some s)
              = Inl (VibinError (''A host was found at '' @ s
                                 @ '', but it does not appear to be a Cambridge Audio device.'')))
       \<and> (requests_get E (probe_url s) = Inr resp \<and> status_code resp = 200
            \<and> json_body resp = Inr j
            \<and> (subscript j ''data'' = Inl (KeyError k)
                \<or> (subscript j ''data'' = Inr d \<and> subscript d ''devices'' = Inl (KeyError k))) \<longrightarrow>
            determine_streamer_device E devices (Some s)
              = Inl (VibinError (''A host was found at '' @ s
                                 @ '', but it does not appear to be a Cambridge Audio device.'')))
       \<and> (requests_get E (probe_url s) = Inr resp \<and> status_code resp = 200
            \<and> cambridge_entries resp = Inl (KeyError k) \<longrightarrow>
            determine_streamer_device E devices (Some s)
              = Inl (VibinError (''A host was found at '' @ s
                                 @ '', but it does not appear to be a Cambridge Audio device.'')))
       \<and> (requests_get E (probe_url s) = Inr resp \<and> status_code resp = 200
            \<and> cambridge_entries resp = Inr (entry # rest)
            \<and> subscript entry ''description_url'' = Inl (KeyError k) \<longrightarrow>
            determine_streamer_device E devices (Some s)
              = Inl (VibinError (''Cambridge Audio device found at '' @ s
                                 @ '', but it did not have a description_url'')))"
proof -
  have u: "determine_streamer_device E devices (Some s) = streamer_by_hostname_or_name E devices s"
    using assms by (rule streamer_hint_unfold)
  show ?thesis
    unfolding u
    using streamer_probe_request_exception [of E s e devices]
          streamer_probe_timeout [of E s e devices]
          streamer_probe_not_json [of E s resp m devices]
          streamer_probe_no_data [of E s resp j k devices]
          streamer_probe_no_devices [of E s resp j d k devices]
          streamer_probe_no_manufacturer [of E s resp k devices]
          streamer_probe_no_description_url [of E s resp entry rest k devices]
    by blast
qed

theorem probe_outcomes_witness:
  "determine_streamer_device offline_env [cxn, nas] (Some ''Living Room'')
     = streamer_by_friendly_name [cxn, nas] ''Living Room''
   \<and> determine_streamer_device timeout_env [cxn, nas] (Some ''Living Room'')
     = Inl (VibinError ''Timed out attempting to connect to Living Room'')
   \<and> determine_streamer_device html_env [cxn, nas] (Some ''Living Room'')
     = Inl (VibinError ''A host was found at Living Room, but it does not appear to be a Cambridge Audio device.'')
   \<and> determine_streamer_device other_json_env [cxn, nas] (Some ''Living Room'')
     = Inl (VibinError ''A host was found at Living Room, but it does not appear to be a Cambridge Audio device.'')
   \<and> determine_streamer_device no_url_env [cxn, nas] (Some ''Living Room'')
     = Inl (VibinError ''Cambridge Audio device found at Living Room, but it did not have a description_url'')"
  using probe_outcomes [where s = "''Living Room''" and E = offline_env and devices = "[cxn, nas]"
                          and e = "RequestException ''connection refused''"]
        probe_outcomes [where s = "''Living Room''" and E = timeout_env and devices = "[cxn, nas]"
                          and e = "Timeout ''read timed out''"]
        probe_outcomes [where s = "''Living Room''" and E = html_env and devices = "[cxn, nas]"
                          and resp = "\<lparr> status_code = 200,
                                         json_body = Inl (JSONDecodeError ''Expecting value'') \<rparr>"
                          and m = "''Expecting value''"]
        probe_outcomes [where s = "''Living Room''" and E = other_json_env and devices = "[cxn, nas]"
                          and resp = "\<lparr> status_code = 200,
                                         json_body = Inr (JObj [(''status'', JStr ''ok'')]) \<rparr>"
                          and j = "JObj [(''status'', JStr ''ok'')]"
                          and k = "[CHR 0x27] @ ''data'' @ [CHR 0x27]"]
        probe_outcomes [where s = "''Living Room''" and E = no_url_env and devices = "[cxn, nas]"
                          and resp = no_url_response
                          and entry = "JObj [(''manufacturer'', JStr ''Cambridge Audio'')]"
                          and rest = "[]"
                          and k = "[CHR 0x27] @ ''description_url'' @ [CHR 0x27]"]
  by (simp add: example_hostnames offline_env_def timeout_env_def html_env_def other_json_env_def
        no_url_env_def no_url_response_def cambridge_entries_def made_by_cambridge_def iterate_def
        bind_exn_def subscript_def)

section \<open>Determinism of streamer resolution\<close>

text \<open>
  The claim C9 says that the resolved descriptor depends on the snapshot and the hint
  and on nothing else. With a URL hint the resolver fetches the description at that URL:
  over one snapshot and one hint, it returns the device when the fetch succeeds and
  fails when it does not.
\<close>

theorem streamer_resolution_network_counterexample:
  "determine_streamer_device online_env [cxn, nas] (Some (location cxn)) = Inr (Some cxn)
   \<and> determine_streamer_device offline_env [cxn, nas] (Some (location cxn))
       = Inl (VibinError (''Could not find a UPnP device at the provided streamer URL: '' @ location cxn))
   \<and> determine_streamer_device online_env [cxn, nas] (Some (location cxn))
       \<noteq> determine_streamer_device offline_env [cxn, nas] (Some (location cxn))"
  by (simp add: determine_streamer_device_def streamer_by_url_def online_env_def offline_env_def
        cxn_def)

text \<open>
  C9, as amended. With no hint, streamer resolution is a function of the snapshot alone:
  two runs over the same snapshot agree whatever the network answers. With a hint, two
  runs over the same snapshot and hint agree whenever the collaborators answer the same:
  \<open>urlparse\<close> on the hint, the description fetch, the vendor probe of the hint, and the
  printing of values.
\<close>

theorem streamer_resolution_deterministic:
  "(streamer_input = None \<or> streamer_input = Some '''' \<longrightarrow>
      determine_streamer_device E devices streamer_input
        = determine_streamer_device E' devices streamer_input)
   \<and> (streamer_input = Some s
       \<and> urlparse_hostname E s = urlparse_hostname E' s
       \<and> upnp_Device E = upnp_Device E'
       \<and> requests_get E (probe_url s) = requests_get E' (probe_url s)
       \<and> py_repr E = py_repr E' \<longrightarrow>
      determine_streamer_device E devices streamer_input
        = determine_streamer_device E' devices streamer_input)"
proof -
  have a: "streamer_input = None \<or> streamer_input = Some '''' \<Longrightarrow>
      determine_streamer_device E devices streamer_input
        = determine_streamer_device E' devices streamer_input"
    by (auto simp: determine_streamer_device_def)
  have d: "determine_streamer_device E devices streamer_input
        = determine_streamer_device E' devices streamer_input"
    if h: "streamer_input = Some s" "urlparse_hostname E s = urlparse_hostname E' s"
       "upnp_Device E = upnp_Device E'"
       "requests_get E (probe_url s) = requests_get E' (probe_url s)"
       "py_repr E = py_repr E'"
  proof -
    have r: "streamer_from_probe_response E s = streamer_from_probe_response E' s"
      using h(3,5) by (intro ext) (rule streamer_from_probe_response_cong)
    show ?thesis
      unfolding determine_streamer_device_def streamer_by_url_def
        streamer_by_hostname_or_name_def option.case h(1) h(2) h(3) h(4) r
      by (rule refl)
  qed
  show ?thesis using a d by blast
qed

theorem streamer_resolution_deterministic_witness:
  "determine_streamer_device online_env [cxn, nas] None
     = determine_streamer_device offline_env [cxn, nas] None
   \<and> determine_streamer_device timeout_env [cxn, nas] (Some ''Living Room'')
     = determine_streamer_device
         (timeout_env\<lparr> urlparse_hostname := (\<lambda>x. if x = ''Living Room'' then Inr None else Inr (Some x)) \<rparr>)
         [cxn, nas] (Some ''Living Room'')"
  using streamer_resolution_deterministic
          [where streamer_input = None and E = online_env and devices = "[cxn, nas]"
             and E' = offline_env]
        streamer_resolution_deterministic
          [of "Some ''Living Room''" timeout_env "[cxn, nas]"
              "timeout_env\<lparr> urlparse_hostname := (\<lambda>x. if x = ''Living Room'' then Inr None else Inr (Some x)) \<rparr>"
              "''Living Room''"]
  by (simp add: example_hostnames)

section \<open>Amplifier resolution without a hint\<close>

text \<open>
  What the resolver does with no hint, in terms of the objects it compares: a single
  MediaRenderer is returned as it is; of several, the first that is not the very object
  passed as the streamer's device, and "no amplifier" when there is no such object; with no
  MediaRenderer the result is "no amplifier".
\<close>

lemma amplifier_no_hint_objects:
  assumes "amplifier_input = None \<or> amplifier_input = Some ''''"
  shows "(media_renderers devices = [d] \<longrightarrow>
            determine_amplifier_device E devices amplifier_input streamer_device = Inr (Some d))
       \<and> (1 < length (media_renderers devices)
            \<and> find (\<lambda>x. x \<noteq> streamer_device) (media_renderers devices) = Some d \<longrightarrow>
            determine_amplifier_device E devices amplifier_input streamer_device = Inr (Some d))
       \<and> (1 < length (media_renderers devices)
            \<and> find (\<lambda>x. x \<noteq> streamer_device) (media_renderers devices) = None \<longrightarrow>
            determine_amplifier_device E devices amplifier_input streamer_device = Inr None)
       \<and> (media_renderers devices = [] \<longrightarrow>
            determine_amplifier_device E devices amplifier_input streamer_device = Inr None)"
proof -
  have u: "determine_amplifier_device E devices amplifier_input streamer_device =
           amplifier_auto_discover devices streamer_device"
    using assms by (rule amplifier_no_hint_unfold)
  have one: "\<And>x. media_renderers devices = [x] \<Longrightarrow>
               amplifier_auto_discover devices streamer_device = Inr (Some x)"
    by (simp add: amplifier_auto_discover_def index0_def)
  have many: "1 < length (media_renderers devices) \<Longrightarrow>
              find (\<lambda>x. x \<noteq> streamer_device) (media_renderers devices) = Some d \<Longrightarrow>
              amplifier_auto_discover devices streamer_device = Inr (Some d)"
    by (simp add: amplifier_auto_discover_def index0_filter_find)
  have all_same: "1 < length (media_renderers devices) \<Longrightarrow>
              find (\<lambda>x. x \<noteq> streamer_device) (media_renderers devices) = None \<Longrightarrow>
              amplifier_auto_discover devices streamer_device = Inr None"
    by (simp add: amplifier_auto_discover_def index0_filter_find)
  have none: "media_renderers devices = [] \<Longrightarrow>
              amplifier_auto_discover devices streamer_device = Inr None"
    by (simp add: amplifier_auto_discover_def index0_def)
  show ?thesis using one many all_same none by (simp add: u)
qed

text \<open>
  C7. The claim: with no amplifier hint and more than one MediaRenderer in the snapshot,
  resolution returns the first renderer that is not the streamer's device. The code
  excludes the streamer with \<open>device != streamer_device\<close>, a comparison of objects, and a
  streamer resolved from a URL is a new object, equal to no entry of the snapshot. Here
  the streamer is resolved from its description URL; the snapshot holds the streamer's
  device and a second renderer, and amplifier resolution returns the snapshot's entry
  for the streamer's own device, not the other renderer.
\<close>

theorem amplifier_returns_fetched_streamer:
  "determine_streamer_device fetching_env [cxn, nas, hegel] (Some (location cxn))
     = Inr (Some cxn_fetched)
   \<and> media_renderers [cxn, nas, hegel] = [cxn, hegel]
   \<and> same_device cxn cxn_fetched
   \<and> \<not> same_device hegel cxn_fetched
   \<and> determine_amplifier_device fetching_env [cxn, nas, hegel] None cxn_fetched = Inr (Some cxn)"
  by (simp add: determine_streamer_device_def streamer_by_url_def fetching_env_def offline_env_def
        media_renderers_def determine_amplifier_device_def amplifier_auto_discover_def index0_def
        same_device_def cxn_fetched_def cxn_def hegel_def nas_def)


section \<open>Adapter classes by explicit type name\<close>

text \<open>
  C8. With an explicit type name, each of the three class resolvers ignores the device
  and the model tables: the result is the same for any other device and any other
  override table. If no known class has that name, resolution fails with a \<open>VibinError\<close>
  naming the requested type, whatever the device's model is and whether or not that
  model has a registered implementation.
\<close>

theorem explicit_type_bypasses_model:
  "(determine_streamer_class known overrides dev (Some t)
      = determine_streamer_class known overrides' dev' (Some t))
   \<and> (determine_media_server_class known overrides dev (Some t)
      = determine_media_server_class known overrides' dev' (Some t))
   \<and> (determine_amplifier_class known overrides dev (Some t)
      = determine_amplifier_class known overrides' dev' (Some t))
   \<and> ((\<forall>c \<in> set known. class_name c \<noteq> t) \<longrightarrow>
        determine_streamer_class known overrides dev (Some t)
          = Inl (VibinError (''Could not find Vibin implementation for requested streamer type: '' @ t))
      \<and> determine_media_server_class known overrides dev (Some t)
          = Inl (VibinError (''Could not find Vibin implementation for requested media server type: '' @ t))
      \<and> determine_amplifier_class known overrides dev (Some t)
          = Inl (VibinError (''Could not find Vibin implementation for requested amplifier type: '' @ t)))"
  by (simp add: determine_streamer_class_def determine_media_server_class_def
        determine_amplifier_class_def find_no_class)

theorem explicit_type_bypasses_model_witness:
  "determine_streamer_class [CXNv2_class, StreamMagic_class] Map.empty cxn None = Inr CXNv2_class
   \<and> determine_streamer_class [CXNv2_class, StreamMagic_class] Map.empty cxn (Some ''Bogus'')
       = Inl (VibinError ''Could not find Vibin implementation for requested streamer type: Bogus'')
   \<and> determine_amplifier_class [CXNv2_class, StreamMagic_class] Map.empty cxn (Some ''Bogus'')
       = Inl (VibinError ''Could not find Vibin implementation for requested amplifier type: Bogus'')
   \<and> determine_media_server_class [CXNv2_class, StreamMagic_class] Map.empty cxn (Some ''Bogus'')
       = Inl (VibinError ''Could not find Vibin implementation for requested media server type: Bogus'')"
  using explicit_type_bypasses_model
          [of "[CXNv2_class, StreamMagic_class]" Map.empty cxn "''Bogus''" Map.empty cxn]
  by (simp add: CXNv2_class_def StreamMagic_class_def determine_streamer_class_def
        known_by_model_def cxn_def)

end
